theory Spec2Isabelle
  imports Main
begin

section \<open>The OAuth provider of the recipe server (src/lib/oauth-provider.js)\<close>

text \<open>
  The provider keeps no state of its own: every method reads and writes three tables of
  the backing store. The tables are modelled as finite maps from the primary key to the
  remaining columns (the SQL schema declares \<open>client_id\<close>, \<open>code\<close> and \<open>token\<close> as the
  primary keys, so a key names at most one row). Methods take the store and return the
  outcome together with the store they leave behind; a thrown \<open>Error\<close> is the left
  injection of the outcome.

  Values the source draws from its environment are arguments of the model, in the order
  the source reads them: the clock (\<open>Date.now()\<close>, \<open>new Date()\<close>; milliseconds since
  the epoch) and the random identifiers (\<open>crypto.randomUUID()\<close>,
  \<open>crypto.randomBytes(32).toString('hex')\<close>). A timestamp column holds the instant
  written into it, as milliseconds; \<open>new Date(data.expires_at)\<close> reads it back.
  The only store failures modelled are the integrity violations of the schema on insert
  (duplicate primary key, dangling \<open>client_id\<close> reference); the store is reachable.
\<close>

subsection \<open>Rows, arguments and results\<close>

text \<open>The client object, with the fields \<open>getClient\<close> returns.\<close>

record oauth_client =
  client_id :: string
  client_secret :: string
  client_id_issued_at :: int
  client_secret_expires_at :: int
  redirect_uris :: "string list"
  client_name :: "string option"
  token_endpoint_auth_method :: string
  grant_types :: "string list"
  response_types :: "string list"
  scope :: "string option"

text \<open>A row of \<open>oauth_authorization_codes\<close> without its key \<open>code\<close>.\<close>

record code_row =
  c_client_id :: string
  c_redirect_uri :: string
  c_code_challenge :: string
  c_scopes :: "string list option"
  c_state :: "string option"
  c_resource :: "string option"
  c_expires_at :: int

datatype token_type = access | refresh

text \<open>A row of \<open>oauth_tokens\<close> without its key \<open>token\<close>.\<close>

record token_row =
  t_token_type :: token_type
  t_client_id :: string
  t_scopes :: "string list option"
  t_resource :: "string option"
  t_expires_at :: int
  t_revoked :: bool
  t_related_token :: "string option"

record store =
  oauth_clients :: "string \<rightharpoonup> oauth_client"
  oauth_authorization_codes :: "string \<rightharpoonup> code_row"
  oauth_tokens :: "string \<rightharpoonup> token_row"

text \<open>
  The \<open>params\<close> argument of \<open>authorize\<close>. \<open>redirectUri\<close> and \<open>codeChallenge\<close> are
  always present; \<open>resource\<close> is a URL object when present, held here by its
  serialisation (\<open>params.resource.toString()\<close>).
\<close>

record params =
  p_redirectUri :: string
  p_codeChallenge :: string
  p_scopes :: "string list option"
  p_state :: "string option"
  p_resource :: "string option"

text \<open>What \<open>authorize\<close> hands to \<open>res.redirect\<close>: the redirect URI with the query
  parameter \<open>code\<close> set, and \<open>state\<close> set when there is one.\<close>

record redirect =
  location :: string
  q_code :: string
  q_state :: "string option"

text \<open>The object both exchanges return.\<close>

record tokens_result =
  o_access_token :: string
  o_token_type :: string
  o_expires_in :: int
  o_refresh_token :: string
  o_scope :: string

text \<open>The object \<open>verifyAccessToken\<close> returns; \<open>i_resource\<close> holds the string the URL
  object was built from.\<close>

record auth_info =
  i_token :: string
  i_clientId :: string
  i_scopes :: "string list"
  i_expiresAt :: int
  i_resource :: "string option"

text \<open>
  The errors the source throws, named after their messages:
  \<open>'Authorization code not found'\<close>, \<open>'Authorization code expired'\<close>,
  \<open>'Invalid refresh token'\<close>, \<open>'Refresh token expired'\<close>, \<open>'Invalid access token'\<close>,
  \<open>'Access token expired'\<close>, \<open>'Failed to store tokens: ...'\<close>,
  \<open>'Failed to store authorization code: ...'\<close>, and the \<open>TypeError\<close> of \<open>new URL\<close> on a
  string that is not a URL. The specification calls the first and the third
  \<open>NotFound\<close>, the second, fourth and sixth \<open>Expired\<close>, the fifth \<open>InvalidToken\<close> and
  the two storage failures \<open>StorageError\<close>.
\<close>

datatype error =
    AuthorizationCodeNotFound
  | AuthorizationCodeExpired
  | InvalidRefreshToken
  | RefreshTokenExpired
  | InvalidAccessToken
  | AccessTokenExpired
  | FailedToStoreTokens
  | FailedToStoreAuthorizationCode
  | InvalidURL

subsection \<open>JavaScript helpers\<close>

text \<open>\<open>s || null\<close> on a string that may be absent: the empty string is falsy.\<close>

definition or_null :: "string option \<Rightarrow> string option" where
  "or_null s = (case s of None \<Rightarrow> None | Some v \<Rightarrow> if v = [] then None else Some v)"

text \<open>\<open>xs || []\<close> on an array that may be absent: every array is truthy.\<close>

definition or_empty :: "string list option \<Rightarrow> string list" where
  "or_empty xs = (case xs of None \<Rightarrow> [] | Some v \<Rightarrow> v)"

text \<open>\<open>xs.join(' ')\<close>.\<close>

fun join_sp :: "string list \<Rightarrow> string" where
  "join_sp [] = []"
| "join_sp [x] = x"
| "join_sp (x # y # ys) = x @ '' '' @ join_sp (y # ys)"

subsection \<open>Store statements\<close>

text \<open>\<open>from('oauth_authorization_codes').select(...).eq('code', code).eq('client_id', cid).single()\<close>\<close>

definition select_code :: "store \<Rightarrow> string \<Rightarrow> string \<Rightarrow> code_row option" where
  "select_code st code cid =
     (case oauth_authorization_codes st code of
        None \<Rightarrow> None
      | Some data \<Rightarrow> if c_client_id data = cid then Some data else None)"

text \<open>\<open>from('oauth_authorization_codes').delete().eq('code', code)\<close>\<close>

definition delete_code :: "store \<Rightarrow> string \<Rightarrow> store" where
  "delete_code st code =
     st\<lparr>oauth_authorization_codes := (oauth_authorization_codes st)(code := None)\<rparr>"

text \<open>\<open>from('oauth_authorization_codes').insert(row)\<close>: refused on a duplicate \<open>code\<close>
  or an unregistered \<open>client_id\<close>.\<close>

definition insert_code :: "store \<Rightarrow> string \<Rightarrow> code_row \<Rightarrow> store option" where
  "insert_code st code row =
     (if oauth_authorization_codes st code = None \<and> oauth_clients st (c_client_id row) \<noteq> None
      then Some (st\<lparr>oauth_authorization_codes := (oauth_authorization_codes st)(code \<mapsto> row)\<rparr>)
      else None)"

text \<open>\<open>from('oauth_tokens').insert(rows)\<close>: one statement, so all rows or none; refused
  on a duplicate \<open>token\<close> (in the table or among the rows) or an unregistered
  \<open>client_id\<close>.\<close>

definition insert_tokens :: "store \<Rightarrow> (string \<times> token_row) list \<Rightarrow> store option" where
  "insert_tokens st rows =
     (if distinct (map fst rows) \<and>
         list_all (\<lambda>(k, r). oauth_tokens st k = None \<and> oauth_clients st (t_client_id r) \<noteq> None) rows
      then Some (st\<lparr>oauth_tokens := fold (\<lambda>(k, r) m. m(k \<mapsto> r)) rows (oauth_tokens st)\<rparr>)
      else None)"

text \<open>\<open>from('oauth_tokens').select('*').eq('token', tok).eq('token_type', 'refresh')
  .eq('client_id', cid).eq('revoked', false).single()\<close>\<close>

definition select_refresh :: "store \<Rightarrow> string \<Rightarrow> string \<Rightarrow> token_row option" where
  "select_refresh st tok cid =
     (case oauth_tokens st tok of
        None \<Rightarrow> None
      | Some data \<Rightarrow>
          if t_token_type data = refresh \<and> t_client_id data = cid \<and> \<not> t_revoked data
          then Some data else None)"

text \<open>\<open>from('oauth_tokens').select('*').eq('token', tok).eq('token_type', 'access')
  .eq('revoked', false).single()\<close>\<close>

definition select_access :: "store \<Rightarrow> string \<Rightarrow> token_row option" where
  "select_access st tok =
     (case oauth_tokens st tok of
        None \<Rightarrow> None
      | Some data \<Rightarrow>
          if t_token_type data = access \<and> \<not> t_revoked data then Some data else None)"

text \<open>\<open>from('oauth_tokens').update({ revoked: true }).in('token', [tok, related])\<close>; a
  null in the list matches no row.\<close>

definition revoke_in :: "store \<Rightarrow> string \<Rightarrow> string option \<Rightarrow> store" where
  "revoke_in st tok related =
     st\<lparr>oauth_tokens := (\<lambda>k. if k = tok \<or> Some k = related
                              then map_option (\<lambda>r. r\<lparr>t_revoked := True\<rparr>) (oauth_tokens st k)
                              else oauth_tokens st k)\<rparr>"

text \<open>\<open>from('oauth_tokens').update({ revoked: true }).eq('token', tok).eq('client_id', cid)\<close>\<close>

definition revoke_eq :: "store \<Rightarrow> string \<Rightarrow> string \<Rightarrow> store" where
  "revoke_eq st tok cid =
     (case oauth_tokens st tok of
        None \<Rightarrow> st
      | Some r \<Rightarrow>
          if t_client_id r = cid
          then st\<lparr>oauth_tokens := (oauth_tokens st)(tok \<mapsto> r\<lparr>t_revoked := True\<rparr>)\<rparr>
          else st)"

subsection \<open>The provider's methods\<close>

text \<open>The two rows both exchanges build (\<open>tokenRecords\<close>).\<close>

definition tokenRecords ::
  "string \<Rightarrow> string \<Rightarrow> string \<Rightarrow> string list \<Rightarrow> string option \<Rightarrow> int \<Rightarrow> int
     \<Rightarrow> (string \<times> token_row) list" where
  "tokenRecords accessToken refreshToken cid tokenScopes res accessExpiry refreshExpiry =
     [(accessToken,
        \<lparr>t_token_type = access, t_client_id = cid, t_scopes = Some tokenScopes,
         t_resource = res, t_expires_at = accessExpiry, t_revoked = False,
         t_related_token = Some refreshToken\<rparr>),
      (refreshToken,
        \<lparr>t_token_type = refresh, t_client_id = cid, t_scopes = Some tokenScopes,
         t_resource = res, t_expires_at = refreshExpiry, t_revoked = False,
         t_related_token = Some accessToken\<rparr>)]"

text \<open>\<open>authorize(client, params, res)\<close>; \<open>code\<close> is the UUID drawn, \<open>now\<close> the clock,
  \<open>valid_url\<close> tells which strings \<open>new URL\<close> accepts.\<close>

definition authorize ::
  "(string \<Rightarrow> bool) \<Rightarrow> store \<Rightarrow> oauth_client \<Rightarrow> params \<Rightarrow> string \<Rightarrow> int
     \<Rightarrow> (error + redirect) \<times> store" where
  "authorize valid_url st client ps code now =
     (let expiresAt = now + 10 * 60 * 1000 in
      (case insert_code st code
             \<lparr>c_client_id = client_id client, c_redirect_uri = p_redirectUri ps,
              c_code_challenge = p_codeChallenge ps, c_scopes = Some (or_empty (p_scopes ps)),
              c_state = or_null (p_state ps), c_resource = p_resource ps,
              c_expires_at = expiresAt\<rparr> of
        None \<Rightarrow> (Inl FailedToStoreAuthorizationCode, st)
      | Some st1 \<Rightarrow>
          if \<not> valid_url (p_redirectUri ps) then (Inl InvalidURL, st1)
          else (Inr \<lparr>location = p_redirectUri ps, q_code = code,
                     q_state = or_null (p_state ps)\<rparr>, st1)))"

text \<open>\<open>challengeForAuthorizationCode(client, authorizationCode)\<close>\<close>

definition challengeForAuthorizationCode ::
  "store \<Rightarrow> oauth_client \<Rightarrow> string \<Rightarrow> (error + string) \<times> store" where
  "challengeForAuthorizationCode st client authorizationCode =
     (case select_code st authorizationCode (client_id client) of
        None \<Rightarrow> (Inl AuthorizationCodeNotFound, st)
      | Some data \<Rightarrow> (Inr (c_code_challenge data), st))"

text \<open>\<open>exchangeAuthorizationCode(client, authorizationCode, codeVerifier, redirectUri,
  resource)\<close>; \<open>now_check\<close> is the clock at the expiry test, \<open>accessToken\<close> and
  \<open>refreshToken\<close> are the random values drawn, \<open>now\<close> is the clock at minting.\<close>

definition exchangeAuthorizationCode ::
  "store \<Rightarrow> oauth_client \<Rightarrow> string \<Rightarrow> string option \<Rightarrow> string option \<Rightarrow> string option
     \<Rightarrow> int \<Rightarrow> string \<Rightarrow> string \<Rightarrow> int \<Rightarrow> (error + tokens_result) \<times> store" where
  "exchangeAuthorizationCode st client authorizationCode codeVerifier redirectUri resource
       now_check accessToken refreshToken now =
     (case select_code st authorizationCode (client_id client) of
        None \<Rightarrow> (Inl AuthorizationCodeNotFound, st)
      | Some data \<Rightarrow>
          if c_expires_at data < now_check
          then (Inl AuthorizationCodeExpired, delete_code st authorizationCode)
          else
            let st1 = delete_code st authorizationCode;
                accessExpiry = now + 60 * 60 * 1000;
                refreshExpiry = now + 30 * 24 * 60 * 60 * 1000
            in (case insert_tokens st1
                       (tokenRecords accessToken refreshToken (client_id client)
                          (or_empty (c_scopes data)) (or_null (c_resource data))
                          accessExpiry refreshExpiry) of
                  None \<Rightarrow> (Inl FailedToStoreTokens, st1)
                | Some st2 \<Rightarrow>
                    (Inr \<lparr>o_access_token = accessToken, o_token_type = ''bearer'',
                          o_expires_in = 3600, o_refresh_token = refreshToken,
                          o_scope = join_sp (or_empty (c_scopes data))\<rparr>, st2)))"

text \<open>\<open>exchangeRefreshToken(client, refreshToken, scopes, resource)\<close>; \<open>now_check\<close>,
  \<open>newAccessToken\<close>, \<open>newRefreshToken\<close> and \<open>now\<close> as above.\<close>

definition exchangeRefreshToken ::
  "store \<Rightarrow> oauth_client \<Rightarrow> string \<Rightarrow> string list option \<Rightarrow> string option
     \<Rightarrow> int \<Rightarrow> string \<Rightarrow> string \<Rightarrow> int \<Rightarrow> (error + tokens_result) \<times> store" where
  "exchangeRefreshToken st client refreshToken scopes resource
       now_check newAccessToken newRefreshToken now =
     (case select_refresh st refreshToken (client_id client) of
        None \<Rightarrow> (Inl InvalidRefreshToken, st)
      | Some data \<Rightarrow>
          if t_expires_at data < now_check then (Inl RefreshTokenExpired, st)
          else
            let st1 = revoke_in st refreshToken (t_related_token data);
                accessExpiry = now + 60 * 60 * 1000;
                refreshExpiry = now + 30 * 24 * 60 * 60 * 1000;
                tokenScopes = (case scopes of Some s \<Rightarrow> s | None \<Rightarrow> or_empty (t_scopes data))
            in (case insert_tokens st1
                       (tokenRecords newAccessToken newRefreshToken (client_id client)
                          tokenScopes (or_null (t_resource data)) accessExpiry refreshExpiry) of
                  None \<Rightarrow> (Inl FailedToStoreTokens, st1)
                | Some st2 \<Rightarrow>
                    (Inr \<lparr>o_access_token = newAccessToken, o_token_type = ''bearer'',
                          o_expires_in = 3600, o_refresh_token = newRefreshToken,
                          o_scope = join_sp tokenScopes\<rparr>, st2)))"

text \<open>\<open>verifyAccessToken(token)\<close>; \<open>now\<close> is the clock at the expiry test.\<close>

definition verifyAccessToken ::
  "(string \<Rightarrow> bool) \<Rightarrow> store \<Rightarrow> string \<Rightarrow> int \<Rightarrow> (error + auth_info) \<times> store" where
  "verifyAccessToken valid_url st token now =
     (case select_access st token of
        None \<Rightarrow> (Inl InvalidAccessToken, st)
      | Some data \<Rightarrow>
          let expiresAt = t_expires_at data in
          (if expiresAt < now then (Inl AccessTokenExpired, st)
          else (case or_null (t_resource data) of
                  None \<Rightarrow>
                    (Inr \<lparr>i_token = token, i_clientId = t_client_id data,
                          i_scopes = or_empty (t_scopes data),
                          i_expiresAt = expiresAt div 1000, i_resource = None\<rparr>, st)
                | Some u \<Rightarrow>
                    if \<not> valid_url u then (Inl InvalidURL, st)
                    else (Inr \<lparr>i_token = token, i_clientId = t_client_id data,
                               i_scopes = or_empty (t_scopes data),
                               i_expiresAt = expiresAt div 1000, i_resource = Some u\<rparr>, st))))"

text \<open>\<open>revokeToken(client, request)\<close>, with \<open>request.token\<close> as the third argument.\<close>

definition revokeToken :: "store \<Rightarrow> oauth_client \<Rightarrow> string \<Rightarrow> (error + unit) \<times> store" where
  "revokeToken st client token = (Inr (), revoke_eq st token (client_id client))"

subsection \<open>Example stores\<close>

text \<open>Two registered clients; a store holding one authorization code of the first
  client, and a store holding one token pair of the first client.\<close>

definition demo_client :: "string \<Rightarrow> oauth_client" where
  "demo_client cid =
     \<lparr>client_id = cid, client_secret = ''s'', client_id_issued_at = 0,
      client_secret_expires_at = 0, redirect_uris = [''https://app.example/cb''],
      client_name = None, token_endpoint_auth_method = ''client_secret_post'',
      grant_types = [''authorization_code''], response_types = [''code''], scope = None\<rparr>"

definition demo_clients :: "string \<rightharpoonup> oauth_client" where
  "demo_clients = [''c1'' \<mapsto> demo_client ''c1'', ''c2'' \<mapsto> demo_client ''c2'']"

definition code_store :: store where
  "code_store =
     \<lparr>oauth_clients = demo_clients,
      oauth_authorization_codes =
        [''C1'' \<mapsto> \<lparr>c_client_id = ''c1'', c_redirect_uri = ''https://app.example/cb'',
                    c_code_challenge = ''abc'', c_scopes = Some [''read''], c_state = None,
                    c_resource = Some ''https://api.example/'', c_expires_at = 600000\<rparr>],
      oauth_tokens = Map.empty\<rparr>"

definition pair_store :: store where
  "pair_store =
     \<lparr>oauth_clients = demo_clients,
      oauth_authorization_codes = Map.empty,
      oauth_tokens =
        [''A'' \<mapsto> \<lparr>t_token_type = access, t_client_id = ''c1'', t_scopes = Some [''read''],
                   t_resource = Some ''https://api.example/'', t_expires_at = 3600000,
                   t_revoked = False,
                   t_related_token = Some ''R''\<rparr>,
         ''R'' \<mapsto> \<lparr>t_token_type = refresh, t_client_id = ''c1'', t_scopes = Some [''read''],
                   t_resource = Some ''https://api.example/'', t_expires_at = 2592000000,
                   t_revoked = False,
                   t_related_token = Some ''A''\<rparr>]\<rparr>"

text \<open>A store holding one authorization code granted two scopes.\<close>

definition two_scope_store :: store where
  "two_scope_store =
     \<lparr>oauth_clients = demo_clients,
      oauth_authorization_codes =
        [''C1'' \<mapsto> \<lparr>c_client_id = ''c1'', c_redirect_uri = ''https://app.example/cb'',
                    c_code_challenge = ''abc'', c_scopes = Some [''read'', ''write''],
                    c_state = None, c_resource = None, c_expires_at = 600000\<rparr>],
      oauth_tokens = Map.empty\<rparr>"

subsection \<open>Rows as the provider writes them\<close>

text \<open>The shape of the rows the provider's own methods write; see the properties below.\<close>

definition provider_rows :: "(string \<Rightarrow> bool) \<Rightarrow> store \<Rightarrow> bool" where
  "provider_rows valid_url st \<longleftrightarrow>
     (\<forall>k row. oauth_tokens st k = Some row \<longrightarrow>
        t_scopes row \<noteq> None \<and> t_resource row \<noteq> Some [] \<and>
        (\<forall>u. t_resource row = Some u \<longrightarrow> valid_url u)) \<and>
     (\<forall>k row u. oauth_authorization_codes st k = Some row \<and> or_null (c_resource row) = Some u
        \<longrightarrow> valid_url u)"

section \<open>Properties\<close>

subsection \<open>Store statements and JavaScript defaults\<close>

lemma insert_tokens_tokenRecords:
  "insert_tokens st (tokenRecords a r cid sc res ae re) = Some st' \<longleftrightarrow>
     a \<noteq> r \<and> oauth_tokens st a = None \<and> oauth_tokens st r = None \<and> oauth_clients st cid \<noteq> None \<and>
     st' = st\<lparr>oauth_tokens := (oauth_tokens st)
              (a \<mapsto> \<lparr>t_token_type = access, t_client_id = cid, t_scopes = Some sc,
                      t_resource = res, t_expires_at = ae, t_revoked = False,
                      t_related_token = Some r\<rparr>,
               r \<mapsto> \<lparr>t_token_type = refresh, t_client_id = cid, t_scopes = Some sc,
                      t_resource = res, t_expires_at = re, t_revoked = False,
                      t_related_token = Some a\<rparr>)\<rparr>"
  by (auto simp: insert_tokens_def tokenRecords_def)

lemma insert_tokens_codes:
  "insert_tokens st rows = Some st' \<Longrightarrow>
     oauth_authorization_codes st' = oauth_authorization_codes st"
  by (auto simp: insert_tokens_def split: if_splits)

lemma revoke_eq_idem: "revoke_eq (revoke_eq st tok cid) tok cid = revoke_eq st tok cid"
  by (simp add: revoke_eq_def split: option.splits)

lemma select_code_Some:
  "select_code st code cid = Some data \<longleftrightarrow>
     oauth_authorization_codes st code = Some data \<and> c_client_id data = cid"
  by (auto simp: select_code_def split: option.splits)


lemma select_code_absent:
  "oauth_authorization_codes st code = None \<Longrightarrow> select_code st code cid = None"
  by (simp add: select_code_def)

lemma select_refresh_Some:
  "select_refresh st tok cid = Some data \<longleftrightarrow>
     oauth_tokens st tok = Some data \<and> t_token_type data = refresh \<and> t_client_id data = cid \<and>
     \<not> t_revoked data"
  by (auto simp: select_refresh_def split: option.splits)

lemma select_refresh_None:
  "select_refresh st tok cid = None \<longleftrightarrow>
     \<not> (\<exists>data. oauth_tokens st tok = Some data \<and> t_token_type data = refresh \<and>
                 t_client_id data = cid \<and> \<not> t_revoked data)"
  by (auto simp: select_refresh_def split: option.splits)

lemma select_access_Some:
  "select_access st tok = Some data \<longleftrightarrow>
     oauth_tokens st tok = Some data \<and> t_token_type data = access \<and> \<not> t_revoked data"
  by (auto simp: select_access_def split: option.splits)

lemma select_access_None:
  "select_access st tok = None \<longleftrightarrow>
     \<not> (\<exists>data. oauth_tokens st tok = Some data \<and> t_token_type data = access \<and> \<not> t_revoked data)"
  by (auto simp: select_access_def split: option.splits)

lemma or_null_id: "s \<noteq> Some [] \<Longrightarrow> or_null s = s"
  by (simp add: or_null_def split: option.splits)

lemma or_null_Some: "or_null s = Some u \<longleftrightarrow> s = Some u \<and> u \<noteq> []"
  by (auto simp: or_null_def split: option.splits)

lemma or_null_not_empty: "or_null s \<noteq> Some []"
  by (simp add: or_null_def split: option.splits)

lemma or_null_idem: "or_null (or_null s) = or_null s"
  by (simp add: or_null_def split: option.splits)

lemma join_sp_Cons: "join_sp (x # xs) = x @ concat (map (\<lambda>y. '' '' @ y) xs)"
  by (induction xs arbitrary: x) simp_all

text \<open>\<open>join_sp\<close> puts exactly one space between consecutive elements and none at the
  ends.\<close>

lemma join_sp_eq:
  "join_sp xs = (case xs of [] \<Rightarrow> [] | x # ys \<Rightarrow> x @ concat (map (\<lambda>y. '' '' @ y) ys))"
  by (cases xs) (simp_all only: join_sp_Cons join_sp.simps list.case)

subsection \<open>Rows the provider writes\<close>

text \<open>
  Every token row the provider writes holds an array of scopes and never an empty resource
  string (\<open>tokenRecords\<close> is fed \<open>data.scopes || []\<close> and \<open>data.resource || null\<close>), and
  its resource, when present, descends from the \<open>params.resource\<close> of some \<open>authorize\<close>
  call, the serialisation of a URL object. \<open>provider_rows\<close> says so of a store; it holds of
  a store without codes and tokens, and every method keeps it, \<open>authorize\<close> as long as the
  resource it is given is a string \<open>new URL\<close> accepts. On such rows the two \<open>||\<close> defaults
  are the identity and \<open>new URL(data.resource)\<close> does not throw.
\<close>

lemma provider_rows_empty:
  "provider_rows valid_url
     \<lparr>oauth_clients = cs, oauth_authorization_codes = Map.empty, oauth_tokens = Map.empty\<rparr>"
  by (simp add: provider_rows_def)

lemma provider_rows_insert_tokens:
  assumes "provider_rows valid_url st"
    and "insert_tokens st (tokenRecords a r cid sc (or_null res) ae re) = Some st'"
    and "\<forall>u. or_null res = Some u \<longrightarrow> valid_url u"
  shows "provider_rows valid_url st'"
  using assms
  by (auto simp: provider_rows_def insert_tokens_tokenRecords or_null_Some split: if_splits)

lemma provider_rows_delete_code:
  "provider_rows valid_url st \<Longrightarrow> provider_rows valid_url (delete_code st code)"
  by (auto simp: provider_rows_def delete_code_def split: if_splits)

lemma provider_rows_revoke_in:
  "provider_rows valid_url st \<Longrightarrow> provider_rows valid_url (revoke_in st tok related)"
  by (auto simp: provider_rows_def revoke_in_def split: if_splits)

lemma provider_rows_revoke_eq:
  "provider_rows valid_url st \<Longrightarrow> provider_rows valid_url (revoke_eq st tok cid)"
  by (auto simp: provider_rows_def revoke_eq_def split: if_splits option.splits)

lemma provider_rows_authorize:
  assumes "provider_rows valid_url st" and "\<forall>u. p_resource ps = Some u \<longrightarrow> valid_url u"
  shows "provider_rows valid_url (snd (authorize accepts st client ps code now))"
  using assms
  by (auto simp: provider_rows_def authorize_def insert_code_def Let_def or_null_Some
      split: if_splits)

lemma provider_rows_exchangeAuthorizationCode:
  assumes inv: "provider_rows valid_url st"
  shows "provider_rows valid_url
           (snd (exchangeAuthorizationCode st client code v ru res nc a r now))"
proof (cases "select_code st code (client_id client)")
  case None
  with inv show ?thesis
    by (simp add: exchangeAuthorizationCode_def)
next
  case (Some data)
  then have "\<forall>u. or_null (c_resource data) = Some u \<longrightarrow> valid_url u"
    using inv by (auto simp: provider_rows_def select_code_Some)
  with Some inv show ?thesis
    by (auto simp: exchangeAuthorizationCode_def Let_def provider_rows_delete_code
        split: option.splits
        intro: provider_rows_insert_tokens [OF provider_rows_delete_code])
qed

lemma provider_rows_exchangeRefreshToken:
  assumes inv: "provider_rows valid_url st"
  shows "provider_rows valid_url
           (snd (exchangeRefreshToken st client t scopes resource nc a r now))"
proof (cases "select_refresh st t (client_id client)")
  case None
  with inv show ?thesis
    by (simp add: exchangeRefreshToken_def)
next
  case (Some data)
  then have "\<forall>u. or_null (t_resource data) = Some u \<longrightarrow> valid_url u"
    using inv by (auto simp: provider_rows_def select_refresh_Some or_null_Some)
  with Some inv show ?thesis
    by (auto simp: exchangeRefreshToken_def Let_def provider_rows_revoke_in
        split: option.splits
        intro: provider_rows_insert_tokens [OF provider_rows_revoke_in])
qed

lemma provider_rows_revokeToken:
  "provider_rows valid_url st \<Longrightarrow> provider_rows valid_url (snd (revokeToken st client tok))"
  by (simp add: revokeToken_def provider_rows_revoke_eq)

lemma provider_rows_lookup:
  assumes "provider_rows valid_url st" and "oauth_tokens st k = Some row"
  shows "t_scopes row \<noteq> None \<and> t_resource row \<noteq> Some [] \<and>
         (\<forall>u. or_null (t_resource row) = Some u \<longrightarrow> valid_url u)"
  using assms by (auto simp: provider_rows_def or_null_Some)

subsection \<open>Issuing an authorization code\<close>

text \<open>
  Claim C4. When \<open>authorize\<close> succeeds, the code drawn was not a key of the table before
  (it is fresh), the table afterwards holds under that code a row of the calling client
  whose expiry is the clock reading plus 600 seconds (600 * 1000 ms), nothing else in the
  store has changed, and the code is what the redirect carries in its \<open>code\<close> parameter.
\<close>

theorem authorize_issues_code:
  assumes "authorize valid_url st client ps code now = (Inr rd, st')"
  shows "oauth_authorization_codes st code = None \<and>
         oauth_authorization_codes st'
           = (oauth_authorization_codes st)
               (code \<mapsto> \<lparr>c_client_id = client_id client, c_redirect_uri = p_redirectUri ps,
                          c_code_challenge = p_codeChallenge ps,
                          c_scopes = Some (or_empty (p_scopes ps)),
                          c_state = or_null (p_state ps), c_resource = p_resource ps,
                          c_expires_at = now + 600 * 1000\<rparr>) \<and>
         oauth_tokens st' = oauth_tokens st \<and>
         oauth_clients st' = oauth_clients st \<and>
         rd = \<lparr>location = p_redirectUri ps, q_code = code, q_state = or_null (p_state ps)\<rparr>"
  using assms
  by (auto simp: authorize_def insert_code_def Let_def split: if_splits)

theorem authorize_issues_code_witness:
  "authorize (\<lambda>u. take 8 u = ''https://'') code_store (demo_client ''c1'')
     \<lparr>p_redirectUri = ''https://app.example/cb'', p_codeChallenge = ''abc'',
      p_scopes = Some [''read''], p_state = None, p_resource = None\<rparr> ''C2'' 0
     = (Inr \<lparr>location = ''https://app.example/cb'', q_code = ''C2'', q_state = None\<rparr>,
        code_store\<lparr>oauth_authorization_codes := (oauth_authorization_codes code_store)
          (''C2'' \<mapsto> \<lparr>c_client_id = ''c1'', c_redirect_uri = ''https://app.example/cb'',
                      c_code_challenge = ''abc'', c_scopes = Some [''read''], c_state = None,
                      c_resource = None, c_expires_at = 600000\<rparr>)\<rparr>) \<and>
   oauth_authorization_codes code_store ''C2'' = None \<and>
   map_option c_expires_at
     (oauth_authorization_codes
        (code_store\<lparr>oauth_authorization_codes := (oauth_authorization_codes code_store)
          (''C2'' \<mapsto> \<lparr>c_client_id = ''c1'', c_redirect_uri = ''https://app.example/cb'',
                      c_code_challenge = ''abc'', c_scopes = Some [''read''], c_state = None,
                      c_resource = None, c_expires_at = 600000\<rparr>)\<rparr>) ''C2'')
     = Some (0 + 600 * 1000)"
proof -
  have run: "authorize (\<lambda>u. take 8 u = ''https://'') code_store (demo_client ''c1'')
     \<lparr>p_redirectUri = ''https://app.example/cb'', p_codeChallenge = ''abc'',
      p_scopes = Some [''read''], p_state = None, p_resource = None\<rparr> ''C2'' 0
     = (Inr \<lparr>location = ''https://app.example/cb'', q_code = ''C2'', q_state = None\<rparr>,
        code_store\<lparr>oauth_authorization_codes := (oauth_authorization_codes code_store)
          (''C2'' \<mapsto> \<lparr>c_client_id = ''c1'', c_redirect_uri = ''https://app.example/cb'',
                      c_code_challenge = ''abc'', c_scopes = Some [''read''], c_state = None,
                      c_resource = None, c_expires_at = 600000\<rparr>)\<rparr>)"
    by (simp add: authorize_def insert_code_def code_store_def demo_clients_def demo_client_def
        or_empty_def or_null_def)
  show ?thesis
    using run authorize_issues_code [OF run] by simp
qed

subsection \<open>Exchanging an authorization code\<close>

lemma exchangeAuthorizationCode_removes_code:
  assumes "fst (exchangeAuthorizationCode st client code v ru res nc a r now)
             \<noteq> Inl AuthorizationCodeNotFound"
  shows "oauth_authorization_codes
           (snd (exchangeAuthorizationCode st client code v ru res nc a r now)) code = None"
proof (cases "select_code st code (client_id client)")
  case None
  with assms show ?thesis
    by (simp add: exchangeAuthorizationCode_def)
next
  case (Some data)
  show ?thesis
  proof (cases "c_expires_at data < nc")
    case True
    with Some show ?thesis
      by (simp add: exchangeAuthorizationCode_def delete_code_def)
  next
    case False
    with Some show ?thesis
      by (auto simp: exchangeAuthorizationCode_def Let_def delete_code_def
          split: option.splits dest: insert_tokens_codes)
  qed
qed

text \<open>\<open>challengeForAuthorizationCode\<close> fails with \<open>'Authorization code not found'\<close>
  under the same condition as the exchange.\<close>

lemma challenge_and_exchange_not_found_together:
  "fst (challengeForAuthorizationCode st client code) = Inl AuthorizationCodeNotFound \<longleftrightarrow>
   fst (exchangeAuthorizationCode st client code v ru res nc a r now)
     = Inl AuthorizationCodeNotFound"
  by (simp add: challengeForAuthorizationCode_def exchangeAuthorizationCode_def Let_def
      split: option.splits)

lemma demo_exchange:
  "fst (exchangeAuthorizationCode code_store (demo_client ''c1'') ''C1'' None None None 1000
          ''A'' ''R'' 1000)
     = Inr \<lparr>o_access_token = ''A'', o_token_type = ''bearer'', o_expires_in = 3600,
            o_refresh_token = ''R'', o_scope = ''read''\<rparr>"
  by (simp add: code_store_def demo_clients_def demo_client_def select_code_def
      exchangeAuthorizationCode_def delete_code_def insert_tokens_def tokenRecords_def
      or_empty_def or_null_def)

lemma demo_exchange_two_scopes:
  "\<exists>out st'. exchangeAuthorizationCode two_scope_store (demo_client ''c1'') ''C1'' None None None
      1000 ''A'' ''R'' 1000 = (Inr out, st')"
  by (simp add: two_scope_store_def demo_clients_def demo_client_def select_code_def
      exchangeAuthorizationCode_def delete_code_def insert_tokens_def tokenRecords_def
      or_empty_def or_null_def)

lemma demo_exchange_late:
  "fst (exchangeAuthorizationCode code_store (demo_client ''c1'') ''C1'' None None None 600001
          ''A'' ''R'' 600001) = Inl AuthorizationCodeExpired"
  by (simp add: code_store_def demo_client_def select_code_def exchangeAuthorizationCode_def)




text \<open>
  Claim C3. Once an exchange of a code has got past the lookup (it succeeded, it found the
  code expired, or the token insert was refused), the row is gone: any further exchange of
  the same code, by any client and at any time, fails with \<open>'Authorization code not
  found'\<close> (never with \<open>'Authorization code expired'\<close>) and changes nothing.
\<close>

theorem authorization_code_redeemable_once:
  assumes "fst (exchangeAuthorizationCode st client code v ru res nc a r now)
             \<noteq> Inl AuthorizationCodeNotFound"
  shows "exchangeAuthorizationCode
           (snd (exchangeAuthorizationCode st client code v ru res nc a r now))
           client' code v' ru' res' nc' a' r' now'
         = (Inl AuthorizationCodeNotFound,
            snd (exchangeAuthorizationCode st client code v ru res nc a r now))"
proof -
  have "select_code (snd (exchangeAuthorizationCode st client code v ru res nc a r now))
          code (client_id client') = None"
    using assms by (intro select_code_absent exchangeAuthorizationCode_removes_code)
  then show ?thesis
    by (simp add: exchangeAuthorizationCode_def)
qed

theorem authorization_code_redeemable_once_witness:
  "fst (exchangeAuthorizationCode code_store (demo_client ''c1'') ''C1'' None None None 1000
          ''A'' ''R'' 1000)
     = Inr \<lparr>o_access_token = ''A'', o_token_type = ''bearer'', o_expires_in = 3600,
            o_refresh_token = ''R'', o_scope = ''read''\<rparr> \<and>
   fst (exchangeAuthorizationCode
          (snd (exchangeAuthorizationCode code_store (demo_client ''c1'') ''C1'' None None None 1000
                  ''A'' ''R'' 1000))
          (demo_client ''c1'') ''C1'' None None None 2000 ''A2'' ''R2'' 2000)
     = Inl AuthorizationCodeNotFound \<and>
   fst (exchangeAuthorizationCode code_store (demo_client ''c1'') ''C1'' None None None 600001
          ''A'' ''R'' 600001) = Inl AuthorizationCodeExpired \<and>
   fst (exchangeAuthorizationCode
          (snd (exchangeAuthorizationCode code_store (demo_client ''c1'') ''C1'' None None None 600001
                  ''A'' ''R'' 600001))
          (demo_client ''c1'') ''C1'' None None None 600002 ''A2'' ''R2'' 600002)
     = Inl AuthorizationCodeNotFound"
proof -
  have 1: "fst (exchangeAuthorizationCode code_store (demo_client ''c1'') ''C1'' None None None 1000
                  ''A'' ''R'' 1000) \<noteq> Inl AuthorizationCodeNotFound"
    by (simp add: demo_exchange)
  have 2: "fst (exchangeAuthorizationCode code_store (demo_client ''c1'') ''C1'' None None None 600001
                  ''A'' ''R'' 600001) \<noteq> Inl AuthorizationCodeNotFound"
    by (simp add: demo_exchange_late)
  show ?thesis
    using authorization_code_redeemable_once [OF 1, of "demo_client ''c1''" None None None 2000
        "''A2''" "''R2''" 2000]
      authorization_code_redeemable_once [OF 2, of "demo_client ''c1''" None None None 600002
        "''A2''" "''R2''" 600002]
    by (simp add: demo_exchange demo_exchange_late)
qed

text \<open>
  Claim C5. When \<open>exchangeAuthorizationCode\<close> succeeds, the two token values drawn are
  distinct and were not keys of the token table (they are fresh); the table afterwards is the
  old one plus an access row expiring one hour (3600 * 1000 ms) and a refresh row expiring
  thirty days (30 * 24 * 3600 * 1000 ms) after the clock reading at minting; each row's
  \<open>related_token\<close> is the other row's value; both carry the client, the scopes and the
  resource of the redeemed code; and the result has \<open>token_type = 'bearer'\<close>,
  \<open>expires_in = 3600\<close> and, as \<open>scope\<close>, the granted scopes in their order with one space
  between consecutive scopes (the empty string when there is none).
\<close>

theorem exchangeAuthorizationCode_issues_pair:
  assumes "exchangeAuthorizationCode st client code v ru res nc a r now = (Inr out, st')"
    and "oauth_authorization_codes st code = Some data"
  shows "a \<noteq> r \<and> oauth_tokens st a = None \<and> oauth_tokens st r = None \<and>
         oauth_tokens st'
           = (oauth_tokens st)
               (a \<mapsto> \<lparr>t_token_type = access, t_client_id = client_id client,
                       t_scopes = Some (or_empty (c_scopes data)),
                       t_resource = or_null (c_resource data),
                       t_expires_at = now + 3600 * 1000, t_revoked = False,
                       t_related_token = Some r\<rparr>,
                r \<mapsto> \<lparr>t_token_type = refresh, t_client_id = client_id client,
                       t_scopes = Some (or_empty (c_scopes data)),
                       t_resource = or_null (c_resource data),
                       t_expires_at = now + 30 * 24 * 3600 * 1000, t_revoked = False,
                       t_related_token = Some a\<rparr>) \<and>
         out = \<lparr>o_access_token = a, o_token_type = ''bearer'', o_expires_in = 3600,
                o_refresh_token = r,
                o_scope = (case or_empty (c_scopes data) of
                             [] \<Rightarrow> []
                           | x # ys \<Rightarrow> x @ concat (map (\<lambda>y. '' '' @ y) ys))\<rparr>"
proof -
  from assms have sel: "select_code st code (client_id client) = Some data"
    by (auto simp: exchangeAuthorizationCode_def select_code_def split: option.splits if_splits)
  with assms(1) have live: "\<not> c_expires_at data < nc"
    by (auto simp: exchangeAuthorizationCode_def split: if_splits)
  from assms(1) sel live obtain st2 where
    ins: "insert_tokens (delete_code st code)
            (tokenRecords a r (client_id client) (or_empty (c_scopes data))
               (or_null (c_resource data)) (now + 60 * 60 * 1000)
               (now + 30 * 24 * 60 * 60 * 1000)) = Some st2"
    and res: "st' = st2"
      "out = \<lparr>o_access_token = a, o_token_type = ''bearer'', o_expires_in = 3600,
              o_refresh_token = r, o_scope = join_sp (or_empty (c_scopes data))\<rparr>"
    by (auto simp: exchangeAuthorizationCode_def Let_def split: option.splits)
  have scope: "join_sp (or_empty (c_scopes data))
      = (case or_empty (c_scopes data) of
           [] \<Rightarrow> []
         | x # ys \<Rightarrow> x @ concat (map (\<lambda>y. '' '' @ y) ys))"
    by (rule join_sp_eq)
  from ins res show ?thesis
    unfolding scope by (simp add: insert_tokens_tokenRecords delete_code_def)
qed

theorem exchangeAuthorizationCode_issues_pair_witness:
  "exchangeAuthorizationCode two_scope_store (demo_client ''c1'') ''C1'' None None None 1000
          ''A'' ''R'' 1000
     = (Inr \<lparr>o_access_token = ''A'', o_token_type = ''bearer'', o_expires_in = 3600,
             o_refresh_token = ''R'', o_scope = ''read write''\<rparr>,
        snd (exchangeAuthorizationCode two_scope_store (demo_client ''c1'') ''C1'' None None None
               1000 ''A'' ''R'' 1000)) \<and>
   oauth_tokens (snd (exchangeAuthorizationCode two_scope_store (demo_client ''c1'') ''C1'' None
                        None None 1000 ''A'' ''R'' 1000))
     = [''A'' \<mapsto> \<lparr>t_token_type = access, t_client_id = ''c1'',
                   t_scopes = Some [''read'', ''write''], t_resource = None,
                   t_expires_at = 3601000, t_revoked = False, t_related_token = Some ''R''\<rparr>,
        ''R'' \<mapsto> \<lparr>t_token_type = refresh, t_client_id = ''c1'',
                   t_scopes = Some [''read'', ''write''], t_resource = None,
                   t_expires_at = 2592001000, t_revoked = False,
                   t_related_token = Some ''A''\<rparr>]"
proof -
  obtain out st' where run: "exchangeAuthorizationCode two_scope_store (demo_client ''c1'') ''C1''
      None None None 1000 ''A'' ''R'' 1000 = (Inr out, st')"
    using demo_exchange_two_scopes by blast
  obtain data where "oauth_authorization_codes two_scope_store ''C1'' = Some data"
    by (simp add: two_scope_store_def)
  then have data: "oauth_authorization_codes two_scope_store ''C1'' = Some data"
    "c_scopes data = Some [''read'', ''write'']" "c_resource data = None"
    by (auto simp: two_scope_store_def)
  have empty: "oauth_tokens two_scope_store = Map.empty"
    by (simp add: two_scope_store_def)
  have cid: "client_id (demo_client ''c1'') = ''c1''"
    by (simp add: demo_client_def)
  note fact = exchangeAuthorizationCode_issues_pair [OF run data(1)]
  from fact have out: "out = \<lparr>o_access_token = ''A'', o_token_type = ''bearer'',
      o_expires_in = 3600, o_refresh_token = ''R'', o_scope = ''read write''\<rparr>"
    by (simp add: data or_empty_def)
  from fact have tab: "oauth_tokens st'
     = [''A'' \<mapsto> \<lparr>t_token_type = access, t_client_id = ''c1'',
                   t_scopes = Some [''read'', ''write''], t_resource = None,
                   t_expires_at = 3601000, t_revoked = False, t_related_token = Some ''R''\<rparr>,
        ''R'' \<mapsto> \<lparr>t_token_type = refresh, t_client_id = ''c1'',
                   t_scopes = Some [''read'', ''write''], t_resource = None,
                   t_expires_at = 2592001000, t_revoked = False,
                   t_related_token = Some ''A''\<rparr>]"
    by (simp add: data empty cid or_empty_def or_null_def)
  show ?thesis
    unfolding run using out tab by simp
qed

text \<open>
  Claim C10. The outcome of \<open>exchangeAuthorizationCode\<close> and the store it leaves do not
  depend on its \<open>codeVerifier\<close>, \<open>redirectUri\<close> and \<open>resource\<close> arguments: two calls
  on the same store, client and code, with the same clock readings and random draws, agree
  whatever these three arguments are. No verifier or redirect-URI check happens at exchange.
\<close>

theorem exchange_ignores_verifier_redirect_resource:
  "exchangeAuthorizationCode st client code verifier1 redirect1 resource1 now_check a r now
     = exchangeAuthorizationCode st client code verifier2 redirect2 resource2 now_check a r now"
  by (simp add: exchangeAuthorizationCode_def)

subsection \<open>Rotating a refresh token\<close>

lemma exchangeRefreshToken_old_rows:
  assumes sel: "select_refresh st t (client_id client) = Some data"
    and live: "\<not> t_expires_at data < now_check"
    and row: "oauth_tokens st k = Some row"
  shows "oauth_tokens (snd (exchangeRefreshToken st client t scopes resource now_check a r now)) k
           = Some (if k = t \<or> Some k = t_related_token data then row\<lparr>t_revoked := True\<rparr> else row)"
proof -
  let ?st1 = "revoke_in st t (t_related_token data)"
  let ?rows = "tokenRecords a r (client_id client)
                 (case scopes of Some s \<Rightarrow> s | None \<Rightarrow> or_empty (t_scopes data))
                 (or_null (t_resource data)) (now + 60 * 60 * 1000) (now + 30 * 24 * 60 * 60 * 1000)"
  have st1: "oauth_tokens ?st1 k
               = Some (if k = t \<or> Some k = t_related_token data then row\<lparr>t_revoked := True\<rparr> else row)"
    using row by (simp add: revoke_in_def)
  show ?thesis
  proof (cases "insert_tokens ?st1 ?rows")
    case None
    then show ?thesis
      using sel live st1 by (simp add: exchangeRefreshToken_def Let_def)
  next
    case (Some st2)
    then have "a \<noteq> k" "r \<noteq> k" and st2: "oauth_tokens st2 k = oauth_tokens ?st1 k"
      using st1 by (auto simp: insert_tokens_tokenRecords)
    then show ?thesis
      using sel live st1 Some by (simp add: exchangeRefreshToken_def Let_def)
  qed
qed

lemma exchangeRefreshToken_success:
  assumes run: "exchangeRefreshToken st client t scopes resource nc a r now = (Inr out, st')"
    and row: "oauth_tokens st t = Some data"
  shows "a \<noteq> r \<and> oauth_tokens st a = None \<and> oauth_tokens st r = None \<and>
         st' = (revoke_in st t (t_related_token data))
                 \<lparr>oauth_tokens := (oauth_tokens (revoke_in st t (t_related_token data)))
                    (a \<mapsto> \<lparr>t_token_type = access, t_client_id = client_id client,
                            t_scopes = Some (case scopes of Some s \<Rightarrow> s
                                             | None \<Rightarrow> or_empty (t_scopes data)),
                            t_resource = or_null (t_resource data),
                            t_expires_at = now + 3600 * 1000, t_revoked = False,
                            t_related_token = Some r\<rparr>,
                     r \<mapsto> \<lparr>t_token_type = refresh, t_client_id = client_id client,
                            t_scopes = Some (case scopes of Some s \<Rightarrow> s
                                             | None \<Rightarrow> or_empty (t_scopes data)),
                            t_resource = or_null (t_resource data),
                            t_expires_at = now + 30 * 24 * 3600 * 1000, t_revoked = False,
                            t_related_token = Some a\<rparr>)\<rparr> \<and>
         out = \<lparr>o_access_token = a, o_token_type = ''bearer'', o_expires_in = 3600,
                o_refresh_token = r,
                o_scope = join_sp (case scopes of Some s \<Rightarrow> s | None \<Rightarrow> or_empty (t_scopes data))\<rparr>"
proof -
  from run row have sel: "select_refresh st t (client_id client) = Some data"
    by (auto simp: exchangeRefreshToken_def select_refresh_def split: option.splits if_splits)
  with run have live: "\<not> t_expires_at data < nc"
    by (auto simp: exchangeRefreshToken_def split: if_splits)
  let ?st1 = "revoke_in st t (t_related_token data)"
  from run sel live obtain st2 where
    ins: "insert_tokens ?st1
            (tokenRecords a r (client_id client)
               (case scopes of Some s \<Rightarrow> s | None \<Rightarrow> or_empty (t_scopes data))
               (or_null (t_resource data)) (now + 60 * 60 * 1000)
               (now + 30 * 24 * 60 * 60 * 1000)) = Some st2"
    and res: "st' = st2"
      "out = \<lparr>o_access_token = a, o_token_type = ''bearer'', o_expires_in = 3600,
              o_refresh_token = r,
              o_scope = join_sp (case scopes of Some s \<Rightarrow> s | None \<Rightarrow> or_empty (t_scopes data))\<rparr>"
    by (auto simp: exchangeRefreshToken_def Let_def split: option.splits)
  have none: "oauth_tokens ?st1 k = None \<longleftrightarrow> oauth_tokens st k = None" for k
    by (simp add: revoke_in_def)
  from ins res none show ?thesis
    by (simp add: insert_tokens_tokenRecords)
qed

lemma demo_rotation:
  "fst (exchangeRefreshToken pair_store (demo_client ''c1'') ''R'' (Some [''read'', ''write''])
          None 1000 ''A2'' ''R2'' 1000)
     = Inr \<lparr>o_access_token = ''A2'', o_token_type = ''bearer'', o_expires_in = 3600,
            o_refresh_token = ''R2'', o_scope = ''read write''\<rparr>"
  by (simp add: pair_store_def demo_clients_def demo_client_def select_refresh_def
      exchangeRefreshToken_def revoke_in_def insert_tokens_def tokenRecords_def or_null_def
      Let_def)

text \<open>
  Claim C6. \<open>exchangeRefreshToken\<close> fails with \<open>'Invalid refresh token'\<close> when no unrevoked
  row of kind refresh matches the presented value and the client, and with \<open>'Refresh token
  expired'\<close> when such a row is past its expiry; in both cases the store is as it was. When
  it succeeds on a row as the provider writes them, the presented row and the row its
  \<open>related_token\<close> names are marked revoked, every other old row is as it was, and two new
  rows are stored under the values drawn: their scopes are the requested scopes when
  supplied and the old row's scopes otherwise, their resource is the old row's resource,
  their expiries are one hour and thirty days after the clock reading at minting (the old
  expiries play no part), and each names the other. The values returned are the new ones,
  which were not keys of the table before, so no old token value is returned.
\<close>

theorem exchangeRefreshToken_rotates:
  "(\<not> (\<exists>data. oauth_tokens st t = Some data \<and> t_token_type data = refresh \<and>
                 t_client_id data = client_id client \<and> \<not> t_revoked data)
      \<longrightarrow> exchangeRefreshToken st client t scopes resource nc a r now
            = (Inl InvalidRefreshToken, st)) \<and>
   (\<forall>data. oauth_tokens st t = Some data \<and> t_token_type data = refresh \<and>
            t_client_id data = client_id client \<and> \<not> t_revoked data \<and> t_expires_at data < nc
      \<longrightarrow> exchangeRefreshToken st client t scopes resource nc a r now
            = (Inl RefreshTokenExpired, st)) \<and>
   (\<forall>data out st'.
      exchangeRefreshToken st client t scopes resource nc a r now = (Inr out, st') \<and>
      oauth_tokens st t = Some data \<and> t_scopes data \<noteq> None \<and> t_resource data \<noteq> Some []
      \<longrightarrow> oauth_tokens st' t = Some (data\<lparr>t_revoked := True\<rparr>) \<and>
          (\<forall>s row. t_related_token data = Some s \<and> oauth_tokens st s = Some row
             \<longrightarrow> oauth_tokens st' s = Some (row\<lparr>t_revoked := True\<rparr>)) \<and>
          oauth_tokens st' a
            = Some \<lparr>t_token_type = access, t_client_id = client_id client,
                    t_scopes = (case scopes of Some s \<Rightarrow> Some s | None \<Rightarrow> t_scopes data),
                    t_resource = t_resource data, t_expires_at = now + 3600 * 1000,
                    t_revoked = False, t_related_token = Some r\<rparr> \<and>
          oauth_tokens st' r
            = Some \<lparr>t_token_type = refresh, t_client_id = client_id client,
                    t_scopes = (case scopes of Some s \<Rightarrow> Some s | None \<Rightarrow> t_scopes data),
                    t_resource = t_resource data, t_expires_at = now + 30 * 24 * 3600 * 1000,
                    t_revoked = False, t_related_token = Some a\<rparr> \<and>
          (\<forall>k. k \<noteq> a \<and> k \<noteq> r \<and> k \<noteq> t \<and> Some k \<noteq> t_related_token data
             \<longrightarrow> oauth_tokens st' k = oauth_tokens st k) \<and>
          a \<noteq> r \<and> oauth_tokens st a = None \<and> oauth_tokens st r = None \<and>
          out = \<lparr>o_access_token = a, o_token_type = ''bearer'', o_expires_in = 3600,
                 o_refresh_token = r,
                 o_scope = join_sp (case scopes of Some s \<Rightarrow> s | None \<Rightarrow> or_empty (t_scopes data))\<rparr>)"
proof (intro conjI allI impI)
  assume "\<not> (\<exists>data. oauth_tokens st t = Some data \<and> t_token_type data = refresh \<and>
                    t_client_id data = client_id client \<and> \<not> t_revoked data)"
  then have "select_refresh st t (client_id client) = None"
    by (simp add: select_refresh_None)
  then show "exchangeRefreshToken st client t scopes resource nc a r now
               = (Inl InvalidRefreshToken, st)"
    by (simp add: exchangeRefreshToken_def)
next
  fix data
  assume "oauth_tokens st t = Some data \<and> t_token_type data = refresh \<and>
          t_client_id data = client_id client \<and> \<not> t_revoked data \<and> t_expires_at data < nc"
  then have "select_refresh st t (client_id client) = Some data" "t_expires_at data < nc"
    by (simp_all add: select_refresh_Some)
  then show "exchangeRefreshToken st client t scopes resource nc a r now
               = (Inl RefreshTokenExpired, st)"
    by (simp add: exchangeRefreshToken_def)
next
  fix data out st'
  assume h: "exchangeRefreshToken st client t scopes resource nc a r now = (Inr out, st') \<and>
      oauth_tokens st t = Some data \<and> t_scopes data \<noteq> None \<and> t_resource data \<noteq> Some []"
  then have run: "exchangeRefreshToken st client t scopes resource nc a r now = (Inr out, st')"
    and row: "oauth_tokens st t = Some data"
    and res: "or_null (t_resource data) = t_resource data"
    and sc: "Some (or_empty (t_scopes data)) = t_scopes data"
    by (auto simp: or_null_id or_empty_def)
  note s = exchangeRefreshToken_success [OF run row]
  from s have fresh: "a \<noteq> r" "oauth_tokens st a = None" "oauth_tokens st r = None"
    by simp_all
  from fresh row have ne: "a \<noteq> t" "r \<noteq> t"
    by auto
  have scopes_eq: "Some (case scopes of Some s \<Rightarrow> s | None \<Rightarrow> or_empty (t_scopes data))
      = (case scopes of Some s \<Rightarrow> Some s | None \<Rightarrow> t_scopes data)"
    using sc by (simp split: option.splits)
  from s have st': "oauth_tokens st' = (oauth_tokens (revoke_in st t (t_related_token data)))
      (a \<mapsto> \<lparr>t_token_type = access, t_client_id = client_id client,
              t_scopes = (case scopes of Some s \<Rightarrow> Some s | None \<Rightarrow> t_scopes data),
              t_resource = t_resource data, t_expires_at = now + 3600 * 1000,
              t_revoked = False, t_related_token = Some r\<rparr>,
       r \<mapsto> \<lparr>t_token_type = refresh, t_client_id = client_id client,
              t_scopes = (case scopes of Some s \<Rightarrow> Some s | None \<Rightarrow> t_scopes data),
              t_resource = t_resource data, t_expires_at = now + 30 * 24 * 3600 * 1000,
              t_revoked = False, t_related_token = Some a\<rparr>)"
    by (simp add: res scopes_eq)
  show "oauth_tokens st' t = Some (data\<lparr>t_revoked := True\<rparr>)"
    using ne row by (simp add: st' revoke_in_def)
  show "oauth_tokens st' a
            = Some \<lparr>t_token_type = access, t_client_id = client_id client,
                    t_scopes = (case scopes of Some s \<Rightarrow> Some s | None \<Rightarrow> t_scopes data),
                    t_resource = t_resource data, t_expires_at = now + 3600 * 1000,
                    t_revoked = False, t_related_token = Some r\<rparr>"
    using fresh by (simp add: st')
  show "oauth_tokens st' r
            = Some \<lparr>t_token_type = refresh, t_client_id = client_id client,
                    t_scopes = (case scopes of Some s \<Rightarrow> Some s | None \<Rightarrow> t_scopes data),
                    t_resource = t_resource data, t_expires_at = now + 30 * 24 * 3600 * 1000,
                    t_revoked = False, t_related_token = Some a\<rparr>"
    by (simp add: st')
  show "a \<noteq> r" "oauth_tokens st a = None" "oauth_tokens st r = None"
    using fresh by simp_all
  show "out = \<lparr>o_access_token = a, o_token_type = ''bearer'', o_expires_in = 3600,
                 o_refresh_token = r,
                 o_scope = join_sp (case scopes of Some s \<Rightarrow> s | None \<Rightarrow> or_empty (t_scopes data))\<rparr>"
    using s by simp
  show "oauth_tokens st' s = Some (row'\<lparr>t_revoked := True\<rparr>)"
    if "t_related_token data = Some s \<and> oauth_tokens st s = Some row'" for s row'
  proof -
    from that fresh have "a \<noteq> s" "r \<noteq> s"
      by auto
    with that show ?thesis
      by (simp add: st' revoke_in_def)
  qed
  show "oauth_tokens st' k = oauth_tokens st k"
    if "k \<noteq> a \<and> k \<noteq> r \<and> k \<noteq> t \<and> Some k \<noteq> t_related_token data" for k
    using that by (simp add: st' revoke_in_def)
qed

theorem exchangeRefreshToken_rotates_witness:
  "exchangeRefreshToken pair_store (demo_client ''c2'') ''R'' None None 1000 ''A2'' ''R2'' 1000
     = (Inl InvalidRefreshToken, pair_store) \<and>
   exchangeRefreshToken pair_store (demo_client ''c1'') ''R'' None None 2592000001 ''A2'' ''R2''
       2592000001
     = (Inl RefreshTokenExpired, pair_store) \<and>
   fst (exchangeRefreshToken pair_store (demo_client ''c1'') ''R'' (Some [''read'', ''write''])
          None 1000 ''A2'' ''R2'' 1000)
     = Inr \<lparr>o_access_token = ''A2'', o_token_type = ''bearer'', o_expires_in = 3600,
            o_refresh_token = ''R2'', o_scope = ''read write''\<rparr> \<and>
   map_option t_revoked
     (oauth_tokens (snd (exchangeRefreshToken pair_store (demo_client ''c1'') ''R''
                           (Some [''read'', ''write'']) None 1000 ''A2'' ''R2'' 1000)) ''R'')
     = Some True \<and>
   map_option t_revoked
     (oauth_tokens (snd (exchangeRefreshToken pair_store (demo_client ''c1'') ''R''
                           (Some [''read'', ''write'']) None 1000 ''A2'' ''R2'' 1000)) ''A'')
     = Some True \<and>
   oauth_tokens (snd (exchangeRefreshToken pair_store (demo_client ''c1'') ''R''
                        (Some [''read'', ''write'']) None 1000 ''A2'' ''R2'' 1000)) ''A2''
     = Some \<lparr>t_token_type = access, t_client_id = ''c1'', t_scopes = Some [''read'', ''write''],
             t_resource = Some ''https://api.example/'', t_expires_at = 3601000,
             t_revoked = False, t_related_token = Some ''R2''\<rparr> \<and>
   oauth_tokens (snd (exchangeRefreshToken pair_store (demo_client ''c1'') ''R''
                        (Some [''read'', ''write'']) None 1000 ''A2'' ''R2'' 1000)) ''R2''
     = Some \<lparr>t_token_type = refresh, t_client_id = ''c1'', t_scopes = Some [''read'', ''write''],
             t_resource = Some ''https://api.example/'', t_expires_at = 2592001000,
             t_revoked = False, t_related_token = Some ''A2''\<rparr> \<and>
   oauth_tokens (snd (exchangeRefreshToken pair_store (demo_client ''c1'') ''R''
                        (Some [''read'', ''write'']) None 1000 ''A2'' ''R2'' 1000)) ''Z''
     = oauth_tokens pair_store ''Z''"
proof -
  have cid: "client_id (demo_client ''c1'') = ''c1''" "client_id (demo_client ''c2'') = ''c2''"
    by (simp_all add: demo_client_def)
  obtain data where row: "oauth_tokens pair_store ''R'' = Some data"
    by (simp add: pair_store_def)
  then have data: "oauth_tokens pair_store ''R'' = Some data"
    "t_token_type data = refresh" "t_client_id data = ''c1''" "\<not> t_revoked data"
    "t_expires_at data = 2592000000" "t_related_token data = Some ''A''"
    "t_scopes data = Some [''read'']" "t_resource data = Some ''https://api.example/''"
    by (auto simp: pair_store_def)
  obtain rowA where rowA: "oauth_tokens pair_store ''A'' = Some rowA"
    by (simp add: pair_store_def)
  obtain out st' where run: "exchangeRefreshToken pair_store (demo_client ''c1'') ''R''
      (Some [''read'', ''write'']) None 1000 ''A2'' ''R2'' 1000 = (Inr out, st')"
    using demo_rotation by (metis prod.collapse)
  have 1: "\<not> (\<exists>d. oauth_tokens pair_store ''R'' = Some d \<and> t_token_type d = refresh \<and>
                  t_client_id d = client_id (demo_client ''c2'') \<and> \<not> t_revoked d)"
    using data cid by simp
  have 2: "oauth_tokens pair_store ''R'' = Some data \<and> t_token_type data = refresh \<and>
           t_client_id data = client_id (demo_client ''c1'') \<and> \<not> t_revoked data \<and>
           t_expires_at data < 2592000001"
    using data cid by simp
  have 3: "exchangeRefreshToken pair_store (demo_client ''c1'') ''R''
             (Some [''read'', ''write'']) None 1000 ''A2'' ''R2'' 1000 = (Inr out, st') \<and>
           oauth_tokens pair_store ''R'' = Some data \<and> t_scopes data \<noteq> None \<and>
           t_resource data \<noteq> Some []"
    using run data by simp
  from 1 exchangeRefreshToken_rotates
      [of pair_store "''R''" "demo_client ''c2''" None None 1000 "''A2''" "''R2''" 1000]
  have a: "exchangeRefreshToken pair_store (demo_client ''c2'') ''R'' None None 1000 ''A2'' ''R2''
             1000 = (Inl InvalidRefreshToken, pair_store)"
    by blast
  from 2 exchangeRefreshToken_rotates
      [of pair_store "''R''" "demo_client ''c1''" None None 2592000001 "''A2''" "''R2''" 2592000001]
  have b: "exchangeRefreshToken pair_store (demo_client ''c1'') ''R'' None None 2592000001
             ''A2'' ''R2'' 2592000001 = (Inl RefreshTokenExpired, pair_store)"
    by blast
  note c = exchangeRefreshToken_rotates
      [of pair_store "''R''" "demo_client ''c1''" "Some [''read'', ''write'']" None 1000
        "''A2''" "''R2''" 1000, THEN conjunct2, THEN conjunct2, rule_format, OF 3]
  from c have c1: "oauth_tokens st' ''R'' = Some (data\<lparr>t_revoked := True\<rparr>)"
    by simp
  from c data(6) rowA have c2: "oauth_tokens st' ''A'' = Some (rowA\<lparr>t_revoked := True\<rparr>)"
    by blast
  from c have c3: "oauth_tokens st' ''A2''
      = Some \<lparr>t_token_type = access, t_client_id = client_id (demo_client ''c1''),
              t_scopes = Some [''read'', ''write''], t_resource = t_resource data,
              t_expires_at = 1000 + 3600 * 1000, t_revoked = False,
              t_related_token = Some ''R2''\<rparr>"
    by simp
  from c have c4: "oauth_tokens st' ''R2''
      = Some \<lparr>t_token_type = refresh, t_client_id = client_id (demo_client ''c1''),
              t_scopes = Some [''read'', ''write''], t_resource = t_resource data,
              t_expires_at = 1000 + 30 * 24 * 3600 * 1000, t_revoked = False,
              t_related_token = Some ''A2''\<rparr>"
    by simp
  have "''Z'' \<noteq> ''A2'' \<and> ''Z'' \<noteq> ''R2'' \<and> ''Z'' \<noteq> ''R'' \<and> Some ''Z'' \<noteq> t_related_token data"
    using data by simp
  with c have c5: "oauth_tokens st' ''Z'' = oauth_tokens pair_store ''Z''"
    by blast
  show ?thesis
    using a b c1 c2 c3 c4 c5 demo_rotation by (simp add: run data cid)
qed

subsection \<open>Verifying an access token\<close>

text \<open>
  Claim C7. \<open>verifyAccessToken\<close> fails with \<open>'Invalid access token'\<close> when no unrevoked row
  of kind access matches the value; fails with \<open>'Access token expired'\<close> when such a row
  is past its expiry at the clock reading of the call; and otherwise returns the row's
  client identifier, scopes, expiry (in whole seconds) and resource, provided the stored
  resource, if any, is a string \<open>new URL\<close> accepts. In every case the store after the call
  is the store before it.
\<close>

theorem verifyAccessToken_cases:
  "(\<not> (\<exists>data. oauth_tokens st tok = Some data \<and> t_token_type data = access \<and> \<not> t_revoked data)
      \<longrightarrow> fst (verifyAccessToken valid_url st tok now) = Inl InvalidAccessToken) \<and>
   (\<forall>data. oauth_tokens st tok = Some data \<and> t_token_type data = access \<and> \<not> t_revoked data \<and>
            t_expires_at data < now
      \<longrightarrow> fst (verifyAccessToken valid_url st tok now) = Inl AccessTokenExpired) \<and>
   (\<forall>data. oauth_tokens st tok = Some data \<and> t_token_type data = access \<and> \<not> t_revoked data \<and>
            now \<le> t_expires_at data \<and>
            (\<forall>u. or_null (t_resource data) = Some u \<longrightarrow> valid_url u)
      \<longrightarrow> fst (verifyAccessToken valid_url st tok now)
            = Inr \<lparr>i_token = tok, i_clientId = t_client_id data,
                   i_scopes = or_empty (t_scopes data),
                   i_expiresAt = t_expires_at data div 1000,
                   i_resource = or_null (t_resource data)\<rparr>) \<and>
   snd (verifyAccessToken valid_url st tok now) = st"
proof (intro conjI allI impI)
  assume "\<not> (\<exists>data. oauth_tokens st tok = Some data \<and> t_token_type data = access \<and>
                    \<not> t_revoked data)"
  then have "select_access st tok = None"
    by (simp add: select_access_None)
  then show "fst (verifyAccessToken valid_url st tok now) = Inl InvalidAccessToken"
    by (simp add: verifyAccessToken_def)
next
  fix data
  assume "oauth_tokens st tok = Some data \<and> t_token_type data = access \<and> \<not> t_revoked data \<and>
          t_expires_at data < now"
  then have "select_access st tok = Some data" "t_expires_at data < now"
    by (simp_all add: select_access_Some)
  then show "fst (verifyAccessToken valid_url st tok now) = Inl AccessTokenExpired"
    by (simp add: verifyAccessToken_def)
next
  fix data
  assume "oauth_tokens st tok = Some data \<and> t_token_type data = access \<and> \<not> t_revoked data \<and>
          now \<le> t_expires_at data \<and> (\<forall>u. or_null (t_resource data) = Some u \<longrightarrow> valid_url u)"
  then have "select_access st tok = Some data" "\<not> t_expires_at data < now"
    "\<And>u. or_null (t_resource data) = Some u \<Longrightarrow> valid_url u"
    by (simp_all add: select_access_Some)
  then show "fst (verifyAccessToken valid_url st tok now)
            = Inr \<lparr>i_token = tok, i_clientId = t_client_id data,
                   i_scopes = or_empty (t_scopes data),
                   i_expiresAt = t_expires_at data div 1000,
                   i_resource = or_null (t_resource data)\<rparr>"
    by (simp add: verifyAccessToken_def Let_def split: option.splits)
next
  show "snd (verifyAccessToken valid_url st tok now) = st"
    by (simp add: verifyAccessToken_def Let_def split: option.splits)
qed

theorem verifyAccessToken_cases_witness:
  "fst (verifyAccessToken (\<lambda>u. take 8 u = ''https://'') pair_store ''R'' 1000)
     = Inl InvalidAccessToken \<and>
   fst (verifyAccessToken (\<lambda>u. take 8 u = ''https://'') pair_store ''A'' 3600001)
     = Inl AccessTokenExpired \<and>
   fst (verifyAccessToken (\<lambda>u. take 8 u = ''https://'') pair_store ''A'' 3600000)
     = Inr \<lparr>i_token = ''A'', i_clientId = ''c1'', i_scopes = [''read''], i_expiresAt = 3600,
            i_resource = Some ''https://api.example/''\<rparr> \<and>
   snd (verifyAccessToken (\<lambda>u. take 8 u = ''https://'') pair_store ''A'' 3600000) = pair_store"
proof -
  let ?ok = "\<lambda>u. take 8 u = ''https://''"
  obtain rowR where "oauth_tokens pair_store ''R'' = Some rowR"
    by (simp add: pair_store_def)
  then have rowR: "oauth_tokens pair_store ''R'' = Some rowR" "t_token_type rowR = refresh"
    by (auto simp: pair_store_def)
  obtain data where "oauth_tokens pair_store ''A'' = Some data"
    by (simp add: pair_store_def)
  then have data: "oauth_tokens pair_store ''A'' = Some data" "t_token_type data = access"
    "\<not> t_revoked data" "t_expires_at data = 3600000" "t_client_id data = ''c1''"
    "t_scopes data = Some [''read'']" "t_resource data = Some ''https://api.example/''"
    by (auto simp: pair_store_def)
  have 1: "\<not> (\<exists>d. oauth_tokens pair_store ''R'' = Some d \<and> t_token_type d = access \<and>
                  \<not> t_revoked d)"
    using rowR by simp
  have 2: "oauth_tokens pair_store ''A'' = Some data \<and> t_token_type data = access \<and>
           \<not> t_revoked data \<and> t_expires_at data < 3600001"
    using data by simp
  have 3: "oauth_tokens pair_store ''A'' = Some data \<and> t_token_type data = access \<and>
           \<not> t_revoked data \<and> 3600000 \<le> t_expires_at data \<and>
           (\<forall>u. or_null (t_resource data) = Some u \<longrightarrow> ?ok u)"
    using data by (auto simp: or_null_def)
  from 1 verifyAccessToken_cases [of pair_store "''R''" ?ok 1000]
  have a: "fst (verifyAccessToken ?ok pair_store ''R'' 1000) = Inl InvalidAccessToken"
    by blast
  from 2 verifyAccessToken_cases [of pair_store "''A''" ?ok 3600001]
  have b: "fst (verifyAccessToken ?ok pair_store ''A'' 3600001) = Inl AccessTokenExpired"
    by blast
  from 3 verifyAccessToken_cases [of pair_store "''A''" ?ok 3600000]
  have c: "fst (verifyAccessToken ?ok pair_store ''A'' 3600000)
      = Inr \<lparr>i_token = ''A'', i_clientId = t_client_id data,
             i_scopes = or_empty (t_scopes data), i_expiresAt = t_expires_at data div 1000,
             i_resource = or_null (t_resource data)\<rparr>"
    by blast
  from verifyAccessToken_cases [of pair_store "''A''" ?ok 3600000]
  have d: "snd (verifyAccessToken ?ok pair_store ''A'' 3600000) = pair_store"
    by blast
  show ?thesis
    using a b c d by (simp add: data or_empty_def or_null_def)
qed

text \<open>
  Claim C8. After a successful \<open>exchangeAuthorizationCode\<close>, verifying the returned access
  token on the resulting store at any time up to its expiry succeeds and returns the
  identifier of the client the pair was issued to and exactly the scopes granted (those
  of the redeemed code), provided the code's resource, if any, is a string \<open>new URL\<close>
  accepts.
\<close>

theorem issue_then_verify_roundtrip:
  assumes run: "exchangeAuthorizationCode st client code v ru res nc a r now = (Inr out, st')"
    and row: "oauth_authorization_codes st code = Some data"
    and live: "now' \<le> now + 3600 * 1000"
    and url: "\<forall>u. or_null (c_resource data) = Some u \<longrightarrow> valid_url u"
  shows "verifyAccessToken valid_url st' (o_access_token out) now'
           = (Inr \<lparr>i_token = o_access_token out, i_clientId = client_id client,
                   i_scopes = or_empty (c_scopes data),
                   i_expiresAt = (now + 3600 * 1000) div 1000,
                   i_resource = or_null (c_resource data)\<rparr>, st')"
proof -
  from run have sel: "select_code st code (client_id client) = Some data"
    using row by (auto simp: exchangeAuthorizationCode_def select_code_def
        split: option.splits if_splits)
  with run have nexp: "\<not> c_expires_at data < nc"
    by (auto simp: exchangeAuthorizationCode_def split: if_splits)
  from run sel nexp obtain st2 where
    ins: "insert_tokens (delete_code st code)
            (tokenRecords a r (client_id client) (or_empty (c_scopes data))
               (or_null (c_resource data)) (now + 60 * 60 * 1000)
               (now + 30 * 24 * 60 * 60 * 1000)) = Some st2"
    and res: "st' = st2" "o_access_token out = a"
    by (auto simp: exchangeAuthorizationCode_def Let_def split: option.splits)
  from ins res have acc: "select_access st' a
      = Some \<lparr>t_token_type = access, t_client_id = client_id client,
              t_scopes = Some (or_empty (c_scopes data)),
              t_resource = or_null (c_resource data), t_expires_at = now + 3600 * 1000,
              t_revoked = False, t_related_token = Some r\<rparr>"
    by (auto simp: insert_tokens_tokenRecords select_access_def)
  show ?thesis
    using acc live url res(2)
    by (simp add: verifyAccessToken_def Let_def or_null_idem or_empty_def split: option.splits)
qed

theorem issue_then_verify_roundtrip_witness:
  "fst (exchangeAuthorizationCode code_store (demo_client ''c1'') ''C1'' None None None 1000
          ''A'' ''R'' 1000)
     = Inr \<lparr>o_access_token = ''A'', o_token_type = ''bearer'', o_expires_in = 3600,
            o_refresh_token = ''R'', o_scope = ''read''\<rparr> \<and>
   fst (verifyAccessToken (\<lambda>u. take 8 u = ''https://'')
          (snd (exchangeAuthorizationCode code_store (demo_client ''c1'') ''C1'' None None None
                  1000 ''A'' ''R'' 1000)) ''A'' 1000)
     = Inr \<lparr>i_token = ''A'', i_clientId = ''c1'', i_scopes = [''read''], i_expiresAt = 3601,
            i_resource = Some ''https://api.example/''\<rparr>"
proof -
  let ?ok = "\<lambda>u. take 8 u = ''https://''"
  obtain out st' where run: "exchangeAuthorizationCode code_store (demo_client ''c1'') ''C1''
      None None None 1000 ''A'' ''R'' 1000 = (Inr out, st')"
    using demo_exchange by (metis prod.collapse)
  with demo_exchange have out: "o_access_token out = ''A''"
    by simp
  obtain data where "oauth_authorization_codes code_store ''C1'' = Some data"
    by (simp add: code_store_def)
  then have data: "oauth_authorization_codes code_store ''C1'' = Some data"
    "c_scopes data = Some [''read'']" "c_resource data = Some ''https://api.example/''"
    by (auto simp: code_store_def)
  have live: "(1000 :: int) \<le> 1000 + 3600 * 1000"
    by simp
  have url: "\<forall>u. or_null (c_resource data) = Some u \<longrightarrow> ?ok u"
    using data by (auto simp: or_null_def)
  have cid: "client_id (demo_client ''c1'') = ''c1''"
    by (simp add: demo_client_def)
  have "verifyAccessToken ?ok st' ''A'' 1000
          = (Inr \<lparr>i_token = ''A'', i_clientId = ''c1'', i_scopes = [''read''],
                  i_expiresAt = 3601, i_resource = Some ''https://api.example/''\<rparr>, st')"
    using issue_then_verify_roundtrip [OF run data(1) live url]
    by (simp add: out data or_empty_def or_null_def cid)
  moreover have "snd (exchangeAuthorizationCode code_store (demo_client ''c1'') ''C1''
      None None None 1000 ''A'' ''R'' 1000) = st'"
    using run by simp
  ultimately show ?thesis
    using demo_exchange by simp
qed

subsection \<open>Revocation\<close>

text \<open>
  Claim C9. \<open>revokeToken\<close> never raises; on a token that is not stored, or whose row
  belongs to another client, it leaves the store as it was; and revoking the same token a
  second time changes nothing more.
\<close>

theorem revokeToken_silent_idempotent:
  "fst (revokeToken st client tok) = Inr () \<and>
   (oauth_tokens st tok = None \<longrightarrow> snd (revokeToken st client tok) = st) \<and>
   (\<forall>row. oauth_tokens st tok = Some row \<and> t_client_id row \<noteq> client_id client
      \<longrightarrow> snd (revokeToken st client tok) = st) \<and>
   snd (revokeToken (snd (revokeToken st client tok)) client tok)
     = snd (revokeToken st client tok)"
proof (intro conjI allI impI)
  show "fst (revokeToken st client tok) = Inr ()"
    by (simp add: revokeToken_def)
  show "snd (revokeToken st client tok) = st" if "oauth_tokens st tok = None"
    using that by (simp add: revokeToken_def revoke_eq_def)
  show "snd (revokeToken st client tok) = st"
    if "oauth_tokens st tok = Some row \<and> t_client_id row \<noteq> client_id client" for row
    using that by (simp add: revokeToken_def revoke_eq_def)
  show "snd (revokeToken (snd (revokeToken st client tok)) client tok)
          = snd (revokeToken st client tok)"
    by (simp add: revokeToken_def revoke_eq_idem)
qed

theorem revokeToken_silent_idempotent_witness:
  "oauth_tokens pair_store ''X'' = None \<and>
   snd (revokeToken pair_store (demo_client ''c1'') ''X'') = pair_store \<and>
   map_option t_client_id (oauth_tokens pair_store ''A'') = Some ''c1'' \<and>
   client_id (demo_client ''c2'') = ''c2'' \<and>
   snd (revokeToken pair_store (demo_client ''c2'') ''A'') = pair_store"
proof -
  have absent: "oauth_tokens pair_store ''X'' = None"
    by (simp add: pair_store_def)
  have other: "map_option t_client_id (oauth_tokens pair_store ''A'') = Some ''c1''"
    "client_id (demo_client ''c2'') = ''c2''"
    by (simp_all add: pair_store_def demo_client_def)
  from other obtain row where row: "oauth_tokens pair_store ''A'' = Some row"
    "t_client_id row \<noteq> client_id (demo_client ''c2'')"
    by auto
  show ?thesis
    using absent other row
      revokeToken_silent_idempotent [of pair_store "demo_client ''c1''" "''X''"]
      revokeToken_silent_idempotent [of pair_store "demo_client ''c2''" "''A''"]
    by blast
qed

text \<open>
  Claim C1: revoking either member of a token pair revokes both, by \<open>revokeToken\<close> as by
  rotation. The rotation path does so (\<open>revoke_in\<close> updates the presented row and the row
  its \<open>related_token\<close> names), but \<open>revokeToken\<close> updates only the row whose \<open>token\<close>
  and \<open>client_id\<close> match and never reads \<open>related_token\<close>. On the example pair \<open>(A, R)\<close>
  of client \<open>c1\<close>: after the owner revokes \<open>R\<close>, the row \<open>A\<close> is unrevoked and \<open>A\<close> still
  verifies; after the owner revokes \<open>A\<close>, the row \<open>R\<close> is unrevoked and \<open>R\<close> still rotates
  into a new pair.
\<close>

theorem revokeToken_leaves_sibling_live:
  "map_option t_related_token (oauth_tokens pair_store ''A'') = Some (Some ''R'') \<and>
   map_option t_related_token (oauth_tokens pair_store ''R'') = Some (Some ''A'') \<and>
   map_option t_client_id (oauth_tokens pair_store ''A'') = Some (client_id (demo_client ''c1'')) \<and>
   map_option t_client_id (oauth_tokens pair_store ''R'') = Some (client_id (demo_client ''c1'')) \<and>
   map_option t_revoked
     (oauth_tokens (snd (revokeToken pair_store (demo_client ''c1'') ''R'')) ''R'') = Some True \<and>
   map_option t_revoked
     (oauth_tokens (snd (revokeToken pair_store (demo_client ''c1'') ''R'')) ''A'') = Some False \<and>
   fst (verifyAccessToken (\<lambda>u. take 8 u = ''https://'')
          (snd (revokeToken pair_store (demo_client ''c1'') ''R'')) ''A'' 1000)
     = Inr \<lparr>i_token = ''A'', i_clientId = ''c1'', i_scopes = [''read''], i_expiresAt = 3600,
            i_resource = Some ''https://api.example/''\<rparr> \<and>
   map_option t_revoked
     (oauth_tokens (snd (revokeToken pair_store (demo_client ''c1'') ''A'')) ''A'') = Some True \<and>
   map_option t_revoked
     (oauth_tokens (snd (revokeToken pair_store (demo_client ''c1'') ''A'')) ''R'') = Some False \<and>
   fst (exchangeRefreshToken (snd (revokeToken pair_store (demo_client ''c1'') ''A''))
          (demo_client ''c1'') ''R'' None None 1000 ''A2'' ''R2'' 1000)
     = Inr \<lparr>o_access_token = ''A2'', o_token_type = ''bearer'', o_expires_in = 3600,
            o_refresh_token = ''R2'', o_scope = ''read''\<rparr>"
  by (simp add: pair_store_def demo_clients_def demo_client_def revokeToken_def revoke_eq_def
      verifyAccessToken_def select_access_def exchangeRefreshToken_def select_refresh_def
      revoke_in_def insert_tokens_def tokenRecords_def or_null_def or_empty_def Let_def)

end
